theory Spec2Isabelle
  imports Complex_Main "HOL-Library.Extended_Nat"
begin

section \<open>Hybrid retrieval: reciprocal rank fusion\<close>

text \<open>
  Source: \<^verbatim>\<open>ChatbotMPES._reciprocal_rank_fusion\<close>, identical in
  \<^verbatim>\<open>src/backend/chatbot.py\<close> and \<^verbatim>\<open>projeto/src/chatbot.py\<close>.

  A retrieval result is the dictionary built by \<^verbatim>\<open>_format_chroma_results\<close> or by
  \<^verbatim>\<open>_executar_busca_textual\<close>: the keys \<^verbatim>\<open>_id\<close>, \<^verbatim>\<open>texto\<close>,
  \<^verbatim>\<open>fonte_documento\<close> and \<^verbatim>\<open>score\<close>. Python floats are modelled as exact
  rationals: the development speaks about ranks and sums of reciprocals, not about
  rounding.
\<close>

record result =
  res_id :: string
  texto :: string
  fonte_documento :: string
  score :: rat

text \<open>
  \<^verbatim>\<open>ranked_results\<close> is a Python dictionary from chunk id to
  \<^verbatim>\<open>{"score": ..., "doc": ...}\<close>. Dictionaries keep insertion order and
  \<^verbatim>\<open>.values()\<close> is read in that order, so it is an association list; a key that is
  already present keeps its position and its \<^verbatim>\<open>doc\<close>.
\<close>

type_synonym ranked = "(string \<times> rat \<times> result) list"

text \<open>
  One iteration of the inner loop body:
  \<^verbatim>\<open>if doc_id not in ranked_results: ranked_results[doc_id] = {"score": 0.0, "doc": result}\<close>
  followed by \<^verbatim>\<open>ranked_results[doc_id]["score"] += c\<close>.
\<close>

fun rrf_add :: "string \<Rightarrow> result \<Rightarrow> rat \<Rightarrow> ranked \<Rightarrow> ranked" where
  "rrf_add i r c [] = [(i, (0 + c, r))]"
| "rrf_add i r c ((j, (s, d)) # rest) =
     (if j = i then (j, (s + c, d)) # rest else (j, (s, d)) # rrf_add i r c rest)"

text \<open>\<^verbatim>\<open>for rank, result in enumerate(results)\<close>, the rank counted from the second argument.\<close>

fun rrf_inner :: "nat \<Rightarrow> nat \<Rightarrow> result list \<Rightarrow> ranked \<Rightarrow> ranked" where
  "rrf_inner k rank [] acc = acc"
| "rrf_inner k rank (r # rs) acc =
     rrf_inner k (Suc rank) rs (rrf_add (res_id r) r (1 / of_nat (k + rank + 1)) acc)"

text \<open>\<^verbatim>\<open>for results in results_lists\<close>.\<close>

fun rrf_outer :: "nat \<Rightarrow> result list list \<Rightarrow> ranked \<Rightarrow> ranked" where
  "rrf_outer k [] acc = acc"
| "rrf_outer k (results # rest) acc = rrf_outer k rest (rrf_inner k 0 results acc)"

definition ranked_results :: "result list list \<Rightarrow> nat \<Rightarrow> ranked" where
  "ranked_results results_lists k = rrf_outer k results_lists []"

text \<open>
  \<^verbatim>\<open>sorted(ranked_results.values(), key=lambda x: x["score"], reverse=True)\<close>.
  Python's sort is stable and \<^verbatim>\<open>reverse=True\<close> keeps elements with equal keys in
  their original order, which is what a stable ascending sort on the negated key does.
\<close>

definition sorted_results :: "ranked \<Rightarrow> ranked" where
  "sorted_results rr = sort_key (\<lambda>e. - fst (snd e)) rr"

text \<open>\<^verbatim>\<open>final_list = [item["doc"] for item in sorted_results]\<close>.\<close>

definition final_list :: "result list list \<Rightarrow> nat \<Rightarrow> result list" where
  "final_list results_lists k = map (\<lambda>e. snd (snd e)) (sorted_results (ranked_results results_lists k))"

text \<open>
  The Python slice \<^verbatim>\<open>xs[:n]\<close> for an \<^verbatim>\<open>int\<close> bound: a negative bound counts
  from the end.
\<close>

definition py_slice_to :: "int \<Rightarrow> 'a list \<Rightarrow> 'a list" where
  "py_slice_to n xs = (if 0 \<le> n then take (nat n) xs else take (length xs - nat (- n)) xs)"

text \<open>
  \<^verbatim>\<open>_reciprocal_rank_fusion(results_lists, final_k, k=60)\<close>. Both call sites leave
  \<^verbatim>\<open>k\<close> at its default; it is a natural number here, so the denominator
  \<^verbatim>\<open>k + rank + 1\<close> is never zero.
\<close>

definition reciprocal_rank_fusion :: "result list list \<Rightarrow> int \<Rightarrow> nat \<Rightarrow> result list" where
  "reciprocal_rank_fusion results_lists final_k k = py_slice_to final_k (final_list results_lists k)"

text \<open>The fused score that the code accumulated for a chunk id (0 for an id it never saw).\<close>

definition score_in :: "ranked \<Rightarrow> string \<Rightarrow> rat" where
  "score_in rr i = (case map_of rr i of None \<Rightarrow> 0 | Some e \<Rightarrow> fst e)"

definition fused_score :: "result list list \<Rightarrow> nat \<Rightarrow> string \<Rightarrow> rat" where
  "fused_score results_lists k i = score_in (ranked_results results_lists k) i"

subsection \<open>The fusion formula as the specification words it\<close>

text \<open>
  Each member of a list contributes \<open>1 / (k + rank + 1)\<close>, \<open>rank\<close> its zero-based
  position in that list; the contributions of one id are summed over the positions
  where it occurs and over the lists.
\<close>

definition spec_contribution :: "nat \<Rightarrow> result list \<Rightarrow> string \<Rightarrow> rat" where
  "spec_contribution k results i =
     (\<Sum>rank\<leftarrow>[0..<length results].
        if res_id (results ! rank) = i then 1 / of_nat (k + rank + 1) else 0)"

definition spec_rrf_score :: "nat \<Rightarrow> result list list \<Rightarrow> string \<Rightarrow> rat" where
  "spec_rrf_score k results_lists i = (\<Sum>results\<leftarrow>results_lists. spec_contribution k results i)"

definition all_ids :: "result list list \<Rightarrow> string set" where
  "all_ids results_lists = (\<Union>results \<in> set results_lists. res_id ` set results)"

text \<open>The same sum with the rank of the head carried along, for the inductions below.\<close>

fun contribution_from :: "nat \<Rightarrow> nat \<Rightarrow> result list \<Rightarrow> string \<Rightarrow> rat" where
  "contribution_from k rank [] i = 0"
| "contribution_from k rank (r # rs) i =
     (if res_id r = i then 1 / of_nat (k + rank + 1) else 0) + contribution_from k (Suc rank) rs i"

text \<open>A list of ids is ranked by a score when the scores never increase along it.\<close>

definition ranked_desc :: "(string \<Rightarrow> rat) \<Rightarrow> string list \<Rightarrow> bool" where
  "ranked_desc f ids = sorted_wrt (\<lambda>a b. f b \<le> f a) ids"

text \<open>The record the code kept for a chunk id: \<^verbatim>\<open>ranked_results[doc_id]["doc"]\<close>.\<close>

definition doc_in :: "ranked \<Rightarrow> string \<Rightarrow> result option" where
  "doc_in rr i = map_option snd (map_of rr i)"

text \<open>The first record with a given id, reading the input lists in the order they were passed.\<close>

definition first_record :: "result list list \<Rightarrow> string \<Rightarrow> result option" where
  "first_record results_lists i = find (\<lambda>r. res_id r = i) (concat results_lists)"

text \<open>
  Example records: chunk \<open>A\<close> as the dense search returns it (cosine-derived score) and as
  the sparse search returns it (BM25 score), and chunk \<open>B\<close> from the sparse search.
\<close>

definition dense_A :: result where
  "dense_A = \<lparr>res_id = ''A'', texto = ''art. 1'', fonte_documento = ''P1'', score = 9 / 10\<rparr>"

definition sparse_A :: result where
  "sparse_A = \<lparr>res_id = ''A'', texto = ''art. 1'', fonte_documento = ''P1'', score = 7 / 2\<rparr>"

definition sparse_B :: result where
  "sparse_B = \<lparr>res_id = ''B'', texto = ''art. 2'', fonte_documento = ''P2'', score = 5 / 2\<rparr>"

section \<open>Sparse retrieval: the BM25 query\<close>












section \<open>The chunking pass\<close>

text \<open>
  Source: \<^verbatim>\<open>split_text_into_blocks\<close> in \<^verbatim>\<open>src/backend/text_processing.py\<close>.

  A Python string is a list of characters, one \<^typ>\<open>char\<close> per code point (the
  texts of the examples stay below code point 256). \<^verbatim>\<open>str.strip()\<close> removes the
  characters for which \<^verbatim>\<open>str.isspace\<close> holds from both ends.
\<close>

definition is_space :: "char \<Rightarrow> bool" where
  "is_space c = (c \<in> set [CHR 0x09, CHR 0x0A, CHR 0x0B, CHR 0x0C, CHR 0x0D, CHR 0x1C, CHR 0x1D,
                           CHR 0x1E, CHR 0x1F, CHR 0x20, CHR 0x85, CHR 0xA0])"

definition strip :: "string \<Rightarrow> string" where
  "strip s = rev (dropWhile is_space (rev (dropWhile is_space s)))"

definition startswith :: "string \<Rightarrow> string \<Rightarrow> bool" where
  "startswith s p = (take (length p) s = p)"

text \<open>The sentinel \<^verbatim>\<open>"Conteudo nao encontrado"\<close>, with its accented letters u-acute and a-tilde.\<close>

definition conteudo_nao_encontrado :: string where
  "conteudo_nao_encontrado = ''Conte'' @ [CHR 0xFA] @ ''do n'' @ [CHR 0xE3] @ ''o encontrado''"

text \<open>
  An element of \<^verbatim>\<open>texto_blocos\<close>. The code reads the keys with \<^verbatim>\<open>.get\<close> and
  tests them for truth, so a missing \<^verbatim>\<open>texto\<close> or \<^verbatim>\<open>texto_hash\<close> is the empty
  string and a missing or null \<^verbatim>\<open>embedding\<close> is \<open>None\<close>.
\<close>

record bloco =
  b_texto :: string
  tamanho :: nat
  texto_hash :: string
  embedding :: "rat list option"
  embedding_timestamp :: "rat option"
  indice_bloco :: nat

text \<open>The sub-document \<^verbatim>\<open>chunk_params\<close>; every key may be absent.\<close>

record cparams =
  cp_hash :: "string option"
  chunk_size :: "int option"
  chunk_overlap :: "int option"
  numero_blocos :: "nat option"
  status :: "string option"
  ultima_atualizacao_chunk :: "rat option"
  error_message :: "string option"

text \<open>A document of the collection \<^verbatim>\<open>portarias\<close>, with the keys the pass reads or writes.\<close>

record portaria =
  doc_id :: string
  texto_completo :: "string option"
  texto_blocos :: "bloco list"
  chunk_params :: "cparams option"

text \<open>
  What the pass is run with: the two chunking parameters, and the things it calls.
  \<open>sha256\<close> stands for \<^verbatim>\<open>hashlib.sha256(s.encode('utf-8')).hexdigest()\<close>,
  \<open>split_text\<close> for the \<^verbatim>\<open>RecursiveCharacterTextSplitter\<close> built from the two
  parameters (\<open>Inl\<close> the message of an exception it raises), \<open>now\<close> for
  \<^verbatim>\<open>time.time()\<close>.
\<close>

record chunk_env =
  env_chunk_size :: int
  env_chunk_overlap :: int
  sha256 :: "string \<Rightarrow> string"
  split_text :: "string \<Rightarrow> string + string list"
  now :: rat

text \<open>
  The query of the cursor: \<^verbatim>\<open>texto_completo\<close> exists and is not the empty string
  (the \<^verbatim>\<open>$or\<close> on \<^verbatim>\<open>chunk_params\<close> holds for every document).
\<close>

definition chunk_query :: "portaria \<Rightarrow> bool" where
  "chunk_query doc = (case texto_completo doc of None \<Rightarrow> False | Some t \<Rightarrow> t \<noteq> [])"

definition is_collection_error :: "string \<Rightarrow> bool" where
  "is_collection_error t = (startswith t ''ERRO_'' \<or> t = conteudo_nao_encontrado)"

definition error_statuses :: "string list" where
  "error_statuses = [''ERRO_NO_CHUNKING'', ''ERRO_NA_COLETA'', ''TEXTO_VAZIO'']"

definition is_error_status :: "string option \<Rightarrow> bool" where
  "is_error_status s = (case s of None \<Rightarrow> False | Some x \<Rightarrow> x \<in> set error_statuses)"

text \<open>\<^verbatim>\<open>not chunk_params\<close> for a sub-document that is present: the empty dictionary.\<close>

definition cp_is_empty :: "cparams \<Rightarrow> bool" where
  "cp_is_empty p = (cp_hash p = None \<and> chunk_size p = None \<and> chunk_overlap p = None
     \<and> numero_blocos p = None \<and> status p = None \<and> ultima_atualizacao_chunk p = None
     \<and> error_message p = None)"

definition empty_cparams :: cparams where
  "empty_cparams = \<lparr>cp_hash = None, chunk_size = None, chunk_overlap = None, numero_blocos = None,
     status = None, ultima_atualizacao_chunk = None, error_message = None\<rparr>"

text \<open>The \<^verbatim>\<open>if\<close>/\<^verbatim>\<open>elif\<close> chain that sets \<^verbatim>\<open>needs_reprocessing\<close>.\<close>

definition needs_reprocessing :: "chunk_env \<Rightarrow> string \<Rightarrow> cparams option \<Rightarrow> bool" where
  "needs_reprocessing env current_content_hash cp =
     (case cp of
        None \<Rightarrow> True
      | Some p \<Rightarrow>
          if cp_is_empty p then True
          else if cp_hash p \<noteq> Some current_content_hash then True
          else if chunk_size p \<noteq> Some (env_chunk_size env) then True
          else if chunk_overlap p \<noteq> Some (env_chunk_overlap env) then True
          else if is_error_status (status p) then True
          else False)"

text \<open>
  \<^verbatim>\<open>existing_blocks_embeddings\<close>: the loop over the old blocks stores the embedding
  of every block whose hash and embedding are both truthy under its hash; a later block
  with the same hash overwrites an earlier one.
\<close>

fun load_existing :: "bloco list \<Rightarrow> (string \<rightharpoonup> rat list) \<Rightarrow> (string \<rightharpoonup> rat list)" where
  "load_existing [] m = m"
| "load_existing (b # bs) m =
     load_existing bs
       (case embedding b of
          None \<Rightarrow> m
        | Some e \<Rightarrow> if texto_hash b \<noteq> [] \<and> e \<noteq> [] then m(texto_hash b \<mapsto> e) else m)"

text \<open>
  The dictionary is filled only when \<^verbatim>\<open>chunk_params\<close> is truthy and its stored
  hash is the current content hash.
\<close>

definition existing_blocks_embeddings :: "string \<Rightarrow> portaria \<Rightarrow> (string \<rightharpoonup> rat list)" where
  "existing_blocks_embeddings current_content_hash doc =
     (case chunk_params doc of
        None \<Rightarrow> Map.empty
      | Some p \<Rightarrow>
          if \<not> cp_is_empty p \<and> cp_hash p = Some current_content_hash
          then load_existing (texto_blocos doc) Map.empty
          else Map.empty)"

text \<open>
  \<^verbatim>\<open>for i, texto_bloco_segmento in enumerate(split_texts)\<close>: a segment that is empty
  after stripping is skipped, its index is not reused.
\<close>

fun novos_blocos :: "(string \<Rightarrow> string) \<Rightarrow> (string \<rightharpoonup> rat list) \<Rightarrow> nat \<Rightarrow> string list \<Rightarrow> bloco list" where
  "novos_blocos h existing i [] = []"
| "novos_blocos h existing i (seg # rest) =
     (if strip seg = [] then novos_blocos h existing (Suc i) rest
      else \<lparr>b_texto = strip seg, tamanho = length (strip seg), texto_hash = h (strip seg),
             embedding = existing (h (strip seg)), embedding_timestamp = None, indice_bloco = i\<rparr>
           # novos_blocos h existing (Suc i) rest)"

text \<open>Which branch of the loop body a document took.\<close>

datatype branch = CollectionError | TextEmpty | SkippedCurrent | Rechunked | ChunkingFailed

text \<open>
  The loop body for one document of the cursor. The first component is the document as
  \<^verbatim>\<open>update_one\<close> leaves it, or \<open>None\<close> when the body issues no update.
\<close>

definition process_doc :: "chunk_env \<Rightarrow> portaria \<Rightarrow> portaria option \<times> branch" where
  "process_doc env doc =
     (let texto_completo_original = (case texto_completo doc of None \<Rightarrow> [] | Some t \<Rightarrow> t) in
      if is_collection_error texto_completo_original then
        (Some (doc\<lparr>texto_blocos := [],
                   chunk_params := Some \<lparr>cp_hash = Some (sha256 env texto_completo_original),
                     chunk_size = Some (env_chunk_size env), chunk_overlap = Some (env_chunk_overlap env),
                     numero_blocos = None, status = Some ''ERRO_NA_COLETA'',
                     ultima_atualizacao_chunk = Some (now env), error_message = None\<rparr>\<rparr>),
         CollectionError)
      else
        let texto_completo_limpo = strip texto_completo_original in
        if texto_completo_limpo = [] then
          (Some (doc\<lparr>texto_blocos := [],
                     chunk_params := Some \<lparr>cp_hash = Some (sha256 env []),
                       chunk_size = Some (env_chunk_size env), chunk_overlap = Some (env_chunk_overlap env),
                       numero_blocos = None, status = Some ''TEXTO_VAZIO'',
                       ultima_atualizacao_chunk = Some (now env), error_message = None\<rparr>\<rparr>),
           TextEmpty)
        else
          let current_content_hash = sha256 env texto_completo_limpo in
          if \<not> needs_reprocessing env current_content_hash (chunk_params doc) then
            (None, SkippedCurrent)
          else
            (case split_text env texto_completo_limpo of
               Inl msg \<Rightarrow>
                 (Some (doc\<lparr>chunk_params :=
                     Some ((case chunk_params doc of None \<Rightarrow> empty_cparams | Some p \<Rightarrow> p)
                            \<lparr>status := Some ''ERRO_NO_CHUNKING'', error_message := Some (take 500 msg)\<rparr>)\<rparr>),
                  ChunkingFailed)
             | Inr split_texts \<Rightarrow>
                 let novos = novos_blocos (sha256 env)
                               (existing_blocks_embeddings current_content_hash doc) 0 split_texts in
                 (Some (doc\<lparr>texto_blocos := novos,
                     chunk_params := Some \<lparr>cp_hash = Some current_content_hash,
                       chunk_size = Some (env_chunk_size env), chunk_overlap = Some (env_chunk_overlap env),
                       numero_blocos = Some (length novos), status = Some ''PROCESSADO_OK'',
                       ultima_atualizacao_chunk = Some (now env), error_message = None\<rparr>\<rparr>),
                  Rechunked)))"

text \<open>
  The pass over the collection. The cursor yields the documents that match the query;
  every other document is left as it is. \<open>written\<close> lists the ids for which
  \<^verbatim>\<open>update_one\<close> was issued, in cursor order. The four counters are those the function
  logs; \<^verbatim>\<open>processed_docs_count\<close>, its return value, counts the re-chunked documents
  that the update modified (\<^verbatim>\<open>modified_count > 0\<close>), the unmodified ones count as
  skipped.
\<close>

definition doc_after :: "chunk_env \<Rightarrow> portaria \<Rightarrow> portaria" where
  "doc_after env doc =
     (if chunk_query doc then (case fst (process_doc env doc) of None \<Rightarrow> doc | Some d \<Rightarrow> d) else doc)"

definition doc_written :: "chunk_env \<Rightarrow> portaria \<Rightarrow> bool" where
  "doc_written env doc = (chunk_query doc \<and> fst (process_doc env doc) \<noteq> None)"

record pass_result =
  collection :: "portaria list"
  written :: "string list"
  processed_docs_count :: nat
  skipped_docs_count :: nat
  docs_with_empty_text_count :: nat
  errors_processing_doc_count :: nat

definition split_text_into_blocks :: "chunk_env \<Rightarrow> portaria list \<Rightarrow> pass_result" where
  "split_text_into_blocks env col =
     (let visited = filter chunk_query col in
      \<lparr>collection = map (doc_after env) col,
       written = map doc_id (filter (doc_written env) col),
       processed_docs_count =
         length (filter (\<lambda>d. snd (process_doc env d) = Rechunked \<and> doc_after env d \<noteq> d) visited),
       skipped_docs_count =
         length (filter (\<lambda>d. snd (process_doc env d) = SkippedCurrent
                          \<or> (snd (process_doc env d) = Rechunked \<and> doc_after env d = d)) visited),
       docs_with_empty_text_count =
         length (filter (\<lambda>d. snd (process_doc env d) \<in> {CollectionError, TextEmpty}) visited),
       errors_processing_doc_count =
         length (filter (\<lambda>d. snd (process_doc env d) = ChunkingFailed) visited)\<rparr>)"



text \<open>An old block whose embedding the code would load for reuse.\<close>

definition reusable :: "bloco \<Rightarrow> bool" where
  "reusable b = (texto_hash b \<noteq> [] \<and> (case embedding b of None \<Rightarrow> False | Some e \<Rightarrow> e \<noteq> []))"

text \<open>
  Examples. The hash of the examples is an injective stand-in for SHA-256; the pass
  only compares hashes.
\<close>

definition toy_hash :: "string \<Rightarrow> string" where
  "toy_hash s = ''h:'' @ s"

definition toy_env :: chunk_env where
  "toy_env = \<lparr>env_chunk_size = 1000, env_chunk_overlap = 200, sha256 = toy_hash,
     split_text = (\<lambda>t. Inr (if t = ''abc def'' then [''abc'', ''def''] else [t])), now = 100\<rparr>"

definition ok_params :: "string \<Rightarrow> cparams" where
  "ok_params h = \<lparr>cp_hash = Some h, chunk_size = Some 1000, chunk_overlap = Some 200,
     numero_blocos = Some 1, status = Some ''PROCESSADO_OK'', ultima_atualizacao_chunk = Some 50,
     error_message = None\<rparr>"

definition bloco_abc :: bloco where
  "bloco_abc = \<lparr>b_texto = ''abc'', tamanho = 3, texto_hash = toy_hash ''abc'',
     embedding = Some [1 / 2], embedding_timestamp = Some 60, indice_bloco = 0\<rparr>"

definition bloco_pending :: bloco where
  "bloco_pending = \<lparr>b_texto = ''abc'', tamanho = 3, texto_hash = toy_hash ''abc'',
     embedding = None, embedding_timestamp = None, indice_bloco = 0\<rparr>"





text \<open>A document whose text became the empty string after it had been chunked.\<close>

definition doc_emptied :: portaria where
  "doc_emptied = \<lparr>doc_id = ''d5'', texto_completo = Some [],
     texto_blocos = [bloco_pending], chunk_params = Some (ok_params (toy_hash ''abc''))\<rparr>"

text \<open>A document whose text is blank but not empty.\<close>

definition doc_blank :: portaria where
  "doc_blank = \<lparr>doc_id = ''d6'', texto_completo = Some ''  '',
     texto_blocos = [bloco_pending], chunk_params = Some (ok_params (toy_hash ''abc''))\<rparr>"

section \<open>The embedding pass\<close>

text \<open>
  Source: \<^verbatim>\<open>src/backend/embedding_generation.py\<close>.
\<close>

definition EMBEDDING_MODEL_DIMENSION :: nat where
  "EMBEDDING_MODEL_DIMENSION = 1536"

definition EMBEDDING_API_MAX_RETRIES :: nat where
  "EMBEDDING_API_MAX_RETRIES = 5"

definition MAX_EMBEDDING_BATCH_UPDATES :: nat where
  "MAX_EMBEDDING_BATCH_UPDATES = 100"

text \<open>
  The filter that \<^verbatim>\<open>process_document_embeddings\<close> passes to \<^verbatim>\<open>find\<close>: the status
  is none of the three error statuses (a missing status passes \<^verbatim>\<open>$nin\<close>), and some
  block has a text, a hash and no embedding (missing, null or of size 0).
\<close>

definition pending_embedding :: "rat list option \<Rightarrow> bool" where
  "pending_embedding e = (case e of None \<Rightarrow> True | Some v \<Rightarrow> v = [])"

definition pending_bloco :: "bloco \<Rightarrow> bool" where
  "pending_bloco b = (b_texto b \<noteq> [] \<and> texto_hash b \<noteq> [] \<and> pending_embedding (embedding b))"

definition doc_status :: "portaria \<Rightarrow> string option" where
  "doc_status doc = (case chunk_params doc of None \<Rightarrow> None | Some p \<Rightarrow> status p)"

definition embedding_query :: "portaria \<Rightarrow> bool" where
  "embedding_query doc = (\<not> is_error_status (doc_status doc) \<and> list_ex pending_bloco (texto_blocos doc))"

text \<open>\<^verbatim>\<open>get_pending_embeddings_count_agg\<close>: the pending blocks of the documents whose status passes.\<close>

definition get_pending_embeddings_count_agg :: "portaria list \<Rightarrow> nat" where
  "get_pending_embeddings_count_agg col =
     (\<Sum>doc\<leftarrow>filter (\<lambda>d. \<not> is_error_status (doc_status d)) col.
        length (filter pending_bloco (texto_blocos doc)))"

subsection \<open>One call of the provider, and the retry around it\<close>

text \<open>
  What one \<^verbatim>\<open>requests.post\<close> to the provider leads to: an exception of
  \<^verbatim>\<open>requests\<close> (from the call or from \<^verbatim>\<open>raise_for_status\<close>), a body that is not
  JSON, a body without a usable \<^verbatim>\<open>data[0]\<close>, or the value under
  \<^verbatim>\<open>"embedding"\<close> (\<open>None\<close> when it is not a list).
\<close>

datatype request_exception = HTTPError | Timeout | ConnectionError | OtherRequestException

datatype api_response =
    Raises request_exception
  | InvalidJSON
  | BadStructure
  | EmbeddingField "rat list option"

datatype embed_exn = EmbeddingProcessingError | RequestException request_exception | RetryError

text \<open>
  The environment of the pass: whether the two credentials are configured, the provider
  (its answer to the \<open>n\<close>-th request of the run, for a text), whether the \<open>n\<close>-th
  \<^verbatim>\<open>bulk_write\<close> succeeds, and the clock.
\<close>

record embed_env =
  credentials :: bool
  provider :: "nat \<Rightarrow> string \<Rightarrow> api_response"
  bulk_write_ok :: "nat \<Rightarrow> bool"
  clock :: rat

text \<open>
  The body of \<^verbatim>\<open>get_embedding_from_api\<close>, one attempt. The second component counts
  the requests sent so far.
\<close>

definition attempt_embedding :: "embed_env \<Rightarrow> string \<Rightarrow> nat \<Rightarrow> (embed_exn + rat list) \<times> nat" where
  "attempt_embedding env text_to_embed calls =
     (if \<not> credentials env then (Inl EmbeddingProcessingError, calls)
      else if length text_to_embed = 0 then (Inl EmbeddingProcessingError, calls)
      else
        let text' = (if 20000 < length text_to_embed then take 20000 text_to_embed else text_to_embed) in
        (case provider env calls text' of
           Raises e \<Rightarrow> (Inl (RequestException e), Suc calls)
         | InvalidJSON \<Rightarrow> (Inl EmbeddingProcessingError, Suc calls)
         | BadStructure \<Rightarrow> (Inl EmbeddingProcessingError, Suc calls)
         | EmbeddingField None \<Rightarrow> (Inl EmbeddingProcessingError, Suc calls)
         | EmbeddingField (Some embedding_vector) \<Rightarrow>
             if length embedding_vector \<noteq> EMBEDDING_MODEL_DIMENSION
             then (Inl EmbeddingProcessingError, Suc calls)
             else (Inr embedding_vector, Suc calls)))"

text \<open>
  The decorator: \<^verbatim>\<open>retry_if_exception_type((requests.HTTPError, requests.Timeout,
  requests.ConnectionError, EmbeddingProcessingError))\<close>.
\<close>

fun retryable :: "embed_exn \<Rightarrow> bool" where
  "retryable EmbeddingProcessingError = True"
| "retryable (RequestException HTTPError) = True"
| "retryable (RequestException Timeout) = True"
| "retryable (RequestException ConnectionError) = True"
| "retryable (RequestException OtherRequestException) = False"
| "retryable RetryError = False"

text \<open>
  \<^verbatim>\<open>stop_after_attempt(n)\<close>: an exception that is not retryable propagates at once;
  when the last of the \<open>n\<close> attempts ends in a retryable exception, the decorator
  raises \<^verbatim>\<open>RetryError\<close>. The waits between attempts have no effect on the state.
\<close>

fun retry_attempts :: "nat \<Rightarrow> embed_env \<Rightarrow> string \<Rightarrow> nat \<Rightarrow> (embed_exn + rat list) \<times> nat" where
  "retry_attempts 0 env text_to_embed calls = (Inl RetryError, calls)"
| "retry_attempts (Suc n) env text_to_embed calls =
     (case attempt_embedding env text_to_embed calls of
        (Inr v, c) \<Rightarrow> (Inr v, c)
      | (Inl e, c) \<Rightarrow> if retryable e then retry_attempts n env text_to_embed c else (Inl e, c))"

definition get_embedding_from_api :: "embed_env \<Rightarrow> string \<Rightarrow> nat \<Rightarrow> (embed_exn + rat list) \<times> nat" where
  "get_embedding_from_api env text_to_embed calls =
     retry_attempts EMBEDDING_API_MAX_RETRIES env text_to_embed calls"



subsection \<open>The pass over the documents\<close>

text \<open>
  \<^verbatim>\<open>UpdateOne({'_id': doc_id, 'texto_blocos.texto_hash': hash}, {'$set':
  {'texto_blocos.$.embedding': ..., 'texto_blocos.$.embedding_timestamp': ...}})\<close>.
\<close>

record update_one =
  upd_doc_id :: string
  upd_texto_hash :: string
  upd_embedding :: "rat list"
  upd_timestamp :: rat

text \<open>
  The local variables of \<^verbatim>\<open>process_document_embeddings\<close>: the six counters of
  \<^verbatim>\<open>stats\<close> and \<^verbatim>\<open>all_updates_for_bulk\<close>; with them the number of requests sent,
  the number of \<^verbatim>\<open>bulk_write\<close> calls made, and the operations those calls stored.
\<close>

record embed_state =
  documentos_verificados :: nat
  blocos_considerados_para_embedding :: nat
  embeddings_gerados_sucesso :: nat
  falhas_geracao_embedding :: nat
  blocos_ja_tinham_embedding_valido :: nat
  erros_salvamento_db :: nat
  all_updates_for_bulk :: "update_one list"
  api_calls :: nat
  bulk_calls :: nat
  stored_updates :: "update_one list"

definition initial_embed_state :: embed_state where
  "initial_embed_state = \<lparr>documentos_verificados = 0, blocos_considerados_para_embedding = 0,
     embeddings_gerados_sucesso = 0, falhas_geracao_embedding = 0,
     blocos_ja_tinham_embedding_valido = 0, erros_salvamento_db = 0, all_updates_for_bulk = [],
     api_calls = 0, bulk_calls = 0, stored_updates = []\<rparr>"

text \<open>
  \<^verbatim>\<open>_execute_embedding_bulk_write\<close> inside its \<^verbatim>\<open>try\<close>: on success the operations
  are stored, on failure their number is added to \<^verbatim>\<open>erros_salvamento_db\<close>; the list
  is emptied either way.
\<close>

definition flush_updates :: "embed_env \<Rightarrow> embed_state \<Rightarrow> embed_state" where
  "flush_updates env st =
     (if bulk_write_ok env (bulk_calls st)
      then st\<lparr>stored_updates := stored_updates st @ all_updates_for_bulk st,
              all_updates_for_bulk := [], bulk_calls := Suc (bulk_calls st)\<rparr>
      else st\<lparr>erros_salvamento_db := erros_salvamento_db st + length (all_updates_for_bulk st),
              all_updates_for_bulk := [], bulk_calls := Suc (bulk_calls st)\<rparr>)"

definition valid_embedding :: "rat list option \<Rightarrow> bool" where
  "valid_embedding e = (case e of None \<Rightarrow> False | Some v \<Rightarrow> length v = EMBEDDING_MODEL_DIMENSION)"

text \<open>
  The body of the loop over the blocks of one document. Each of the three
  \<^verbatim>\<open>except\<close> clauses around the provider call adds one to
  \<^verbatim>\<open>falhas_geracao_embedding\<close> and lets the loop go on. The second test of the
  stored embedding, after the counter of considered blocks, repeats the first and never
  holds there.
\<close>

definition process_bloco :: "embed_env \<Rightarrow> string \<Rightarrow> bloco \<Rightarrow> embed_state \<Rightarrow> embed_state" where
  "process_bloco env did bloco st =
     (if valid_embedding (embedding bloco) then st
      else
        let texto_do_bloco = strip (b_texto bloco); hash_do_bloco = texto_hash bloco in
        if texto_do_bloco = [] \<or> hash_do_bloco = [] then st
        else
          let st1 = st\<lparr>blocos_considerados_para_embedding := blocos_considerados_para_embedding st + 1\<rparr> in
          (case get_embedding_from_api env texto_do_bloco (api_calls st1) of
             (Inr novo_embedding, c) \<Rightarrow>
               let st2 = st1\<lparr>api_calls := c,
                     all_updates_for_bulk := all_updates_for_bulk st1 @
                       [\<lparr>upd_doc_id = did, upd_texto_hash = hash_do_bloco,
                         upd_embedding = novo_embedding, upd_timestamp = clock env\<rparr>],
                     embeddings_gerados_sucesso := embeddings_gerados_sucesso st1 + 1\<rparr> in
               if MAX_EMBEDDING_BATCH_UPDATES \<le> length (all_updates_for_bulk st2)
               then flush_updates env st2 else st2
           | (Inl e, c) \<Rightarrow>
               st1\<lparr>api_calls := c, falhas_geracao_embedding := falhas_geracao_embedding st1 + 1\<rparr>))"

fun process_blocos :: "embed_env \<Rightarrow> string \<Rightarrow> bloco list \<Rightarrow> embed_state \<Rightarrow> embed_state" where
  "process_blocos env did [] st = st"
| "process_blocos env did (b # bs) st = process_blocos env did bs (process_bloco env did b st)"

fun process_documentos :: "embed_env \<Rightarrow> portaria list \<Rightarrow> embed_state \<Rightarrow> embed_state" where
  "process_documentos env [] st = st"
| "process_documentos env (documento # rest) st =
     process_documentos env rest
       (process_blocos env (doc_id documento) (texto_blocos documento)
          (st\<lparr>documentos_verificados := documentos_verificados st + 1\<rparr>))"

text \<open>\<^verbatim>\<open>process_document_embeddings\<close>: the loop over the cursor, then the final flush.\<close>

definition process_document_embeddings :: "embed_env \<Rightarrow> portaria list \<Rightarrow> embed_state" where
  "process_document_embeddings env col =
     (let st = process_documentos env (filter embedding_query col) initial_embed_state in
      if all_updates_for_bulk st \<noteq> [] then flush_updates env st else st)"


definition always_short :: "nat \<Rightarrow> string \<Rightarrow> api_response" where
  "always_short n t = EmbeddingField (Some (replicate 512 0))"

definition env_of :: "(nat \<Rightarrow> string \<Rightarrow> api_response) \<Rightarrow> embed_env" where
  "env_of p = \<lparr>credentials = True, provider = p, bulk_write_ok = (\<lambda>n. True), clock = 100\<rparr>"


section \<open>The embedding sync loop\<close>



text \<open>
  The exceptions the loop catches and logs before it goes on to the next attempt:
  \<^verbatim>\<open>(DatabaseOperationError, PyMongoError)\<close>, \<^verbatim>\<open>requests.RequestException\<close> and
  any other \<^verbatim>\<open>Exception\<close>.
\<close>

datatype loop_exn = DbError | NetworkError | UnexpectedError














section \<open>The synchronisation pipeline: chunks and the token limit\<close>

text \<open>
  Source: \<^verbatim>\<open>process_documents_in_batches\<close> in \<^verbatim>\<open>projeto/src/etl.py\<close>.
\<close>

definition DOCUMENT_PROCESSING_BATCH_SIZE :: nat where
  "DOCUMENT_PROCESSING_BATCH_SIZE = 100"


















section \<open>Reciprocal rank fusion: proofs\<close>

subsection \<open>The accumulated score is the specification's sum\<close>

lemma keys_rrf_add:
  "map fst (rrf_add i r c acc) = (if i \<in> fst ` set acc then map fst acc else map fst acc @ [i])"
  by (induction i r c acc rule: rrf_add.induct) auto

lemma score_in_rrf_add:
  "score_in (rrf_add i r c acc) j = score_in acc j + (if i = j then c else 0)"
  by (induction i r c acc rule: rrf_add.induct) (auto simp: score_in_def)

lemma score_in_rrf_inner:
  "score_in (rrf_inner k rank rs acc) j = score_in acc j + contribution_from k rank rs j"
  by (induction k rank rs acc rule: rrf_inner.induct) (auto simp: score_in_rrf_add)

lemma contribution_from_sum:
  "contribution_from k rank rs i =
     (\<Sum>n\<leftarrow>[0..<length rs]. if res_id (rs ! n) = i then 1 / of_nat (k + (rank + n) + 1) else 0)"
proof (induction rs arbitrary: rank)
  case Nil
  show ?case by simp
next
  case (Cons r rs)
  have "[0..<length (r # rs)] = 0 # map Suc [0..<length rs]"
    by (simp add: upt_conv_Cons map_Suc_upt del: upt_Suc)
  then show ?case
    by (simp add: Cons.IH comp_def del: upt_Suc cong: if_cong)
qed

lemma contribution_from_0: "contribution_from k 0 rs i = spec_contribution k rs i"
  by (simp add: contribution_from_sum spec_contribution_def cong: if_cong)

lemma score_in_rrf_outer:
  "score_in (rrf_outer k ls acc) j = score_in acc j + spec_rrf_score k ls j"
  by (induction k ls acc rule: rrf_outer.induct)
     (auto simp: score_in_rrf_inner contribution_from_0 spec_rrf_score_def)

lemma fused_score_spec: "fused_score ls k i = spec_rrf_score k ls i"
  by (simp add: fused_score_def ranked_results_def score_in_rrf_outer) (simp add: score_in_def)

subsection \<open>Keys, kept records and the sorted output\<close>

lemma distinct_keys_rrf_add:
  "distinct (map fst acc) \<Longrightarrow> distinct (map fst (rrf_add i r c acc))"
  by (simp add: keys_rrf_add)

lemma keyset_rrf_add: "fst ` set (rrf_add i r c acc) = insert i (fst ` set acc)"
proof -
  have "set (map fst (rrf_add i r c acc)) = insert i (fst ` set acc)"
    unfolding keys_rrf_add by auto
  then show ?thesis by simp
qed

lemma distinct_keys_rrf_inner:
  "distinct (map fst acc) \<Longrightarrow> distinct (map fst (rrf_inner k rank rs acc))"
  by (induction k rank rs acc rule: rrf_inner.induct) (simp_all add: distinct_keys_rrf_add)

lemma keyset_rrf_inner:
  "fst ` set (rrf_inner k rank rs acc) = fst ` set acc \<union> res_id ` set rs"
  by (induction k rank rs acc rule: rrf_inner.induct) (auto simp: keyset_rrf_add)

lemma distinct_keys_rrf_outer:
  "distinct (map fst acc) \<Longrightarrow> distinct (map fst (rrf_outer k ls acc))"
  by (induction k ls acc rule: rrf_outer.induct) (simp_all add: distinct_keys_rrf_inner)

lemma keyset_rrf_outer:
  "fst ` set (rrf_outer k ls acc) = fst ` set acc \<union> all_ids ls"
  by (induction k ls acc rule: rrf_outer.induct) (auto simp: keyset_rrf_inner all_ids_def)

lemma distinct_keys_ranked_results: "distinct (map fst (ranked_results ls k))"
  by (simp add: ranked_results_def distinct_keys_rrf_outer)

lemma keyset_ranked_results: "fst ` set (ranked_results ls k) = all_ids ls"
  by (simp add: ranked_results_def keyset_rrf_outer)

lemma doc_in_rrf_add:
  "doc_in (rrf_add i r c acc) j = (if j = i \<and> doc_in acc i = None then Some r else doc_in acc j)"
  by (induction i r c acc rule: rrf_add.induct) (auto simp: doc_in_def)

lemma doc_in_rrf_inner:
  "doc_in (rrf_inner k rank rs acc) j =
     (case doc_in acc j of Some d \<Rightarrow> Some d | None \<Rightarrow> find (\<lambda>r. res_id r = j) rs)"
  by (induction k rank rs acc rule: rrf_inner.induct)
     (auto simp: doc_in_rrf_add split: option.splits)

lemma find_app:
  "find P (xs @ ys) = (case find P xs of Some x \<Rightarrow> Some x | None \<Rightarrow> find P ys)"
  by (induction xs) auto

lemma doc_in_rrf_outer:
  "doc_in (rrf_outer k ls acc) j =
     (case doc_in acc j of Some d \<Rightarrow> Some d | None \<Rightarrow> find (\<lambda>r. res_id r = j) (concat ls))"
  by (induction k ls acc rule: rrf_outer.induct)
     (auto simp: doc_in_rrf_inner find_app split: option.splits)

lemma doc_in_ranked_results: "doc_in (ranked_results ls k) j = first_record ls j"
  by (simp add: ranked_results_def doc_in_rrf_outer first_record_def) (simp add: doc_in_def)

lemma entry_ranked_results:
  assumes "e \<in> set (ranked_results ls k)"
  shows "fst (snd e) = spec_rrf_score k ls (fst e)"
    and "first_record ls (fst e) = Some (snd (snd e))"
    and "res_id (snd (snd e)) = fst e"
proof -
  obtain i s d where e: "e = (i, s, d)" by (cases e) auto
  have "map_of (ranked_results ls k) i = Some (s, d)"
    using assms distinct_keys_ranked_results[of ls k] by (simp add: e)
  then have s: "score_in (ranked_results ls k) i = s" and d: "doc_in (ranked_results ls k) i = Some d"
    by (simp_all add: score_in_def doc_in_def)
  from s show "fst (snd e) = spec_rrf_score k ls (fst e)"
    using fused_score_spec[of ls k i] by (simp add: fused_score_def e)
  from d show fr: "first_record ls (fst e) = Some (snd (snd e))"
    by (simp add: doc_in_ranked_results e)
  then show "res_id (snd (snd e)) = fst e"
    by (auto simp: first_record_def find_Some_iff)
qed

lemma set_sorted_results: "set (sorted_results rr) = set rr"
  by (simp add: sorted_results_def)

lemma ids_final_list:
  "map res_id (final_list ls k) = map fst (sorted_results (ranked_results ls k))"
  by (simp add: final_list_def set_sorted_results entry_ranked_results(3))

lemma set_ids_final_list: "set (map res_id (final_list ls k)) = all_ids ls"
  by (simp add: ids_final_list set_sorted_results keyset_ranked_results del: set_map)
     (simp add: set_sorted_results keyset_ranked_results)

lemma distinct_ids_final_list: "distinct (map res_id (final_list ls k))"
proof -
  have "distinct (map fst (ranked_results ls k))" by (rule distinct_keys_ranked_results)
  then have "distinct (ranked_results ls k) \<and> inj_on fst (set (ranked_results ls k))"
    by (simp add: distinct_map)
  then have "distinct (map fst (sorted_results (ranked_results ls k)))"
    by (simp add: distinct_map sorted_results_def)
  then show ?thesis by (simp add: ids_final_list)
qed

lemma ranked_desc_final_list:
  "ranked_desc (spec_rrf_score k ls) (map res_id (final_list ls k))"
proof -
  let ?rr = "ranked_results ls k"
  have "sorted (map (\<lambda>e. - fst (snd e)) (sorted_results ?rr))"
    by (simp add: sorted_results_def)
  then have "sorted_wrt (\<lambda>x y. fst (snd y) \<le> fst (snd x)) (sorted_results ?rr)"
    by (simp add: sorted_map)
  then have "sorted_wrt (\<lambda>x y. spec_rrf_score k ls (fst y) \<le> spec_rrf_score k ls (fst x))
               (sorted_results ?rr)"
    by (rule sorted_wrt_mono_rel[rotated])
       (simp add: set_sorted_results entry_ranked_results(1))
  then show ?thesis
    by (simp add: ranked_desc_def ids_final_list sorted_wrt_map)
qed

lemma set_py_slice_to: "set (py_slice_to n xs) \<subseteq> set xs"
  by (auto simp: py_slice_to_def dest: in_set_takeD)

lemma distinct_map_py_slice_to: "distinct (map f xs) \<Longrightarrow> distinct (map f (py_slice_to n xs))"
  by (simp add: py_slice_to_def take_map[symmetric] del: take_map)

lemma final_list_all_empty: "\<forall>l \<in> set ls. l = [] \<Longrightarrow> final_list ls k = []"
proof -
  assume "\<forall>l \<in> set ls. l = []"
  then have "all_ids ls = {}" by (auto simp: all_ids_def)
  then have "set (map res_id (final_list ls k)) = {}" by (simp only: set_ids_final_list)
  then show ?thesis by simp
qed



subsection \<open>Swapping the input lists, swapping two ranks\<close>







subsection \<open>Claims about the fusion\<close>

text \<open>
  C1. With \<open>k = 60\<close> and a bound \<open>final_k \<ge> 0\<close>, the fusion returns the first
  \<open>final_k\<close> entries of \<open>final_list\<close>; \<open>final_list\<close> holds exactly the ids that
  occur in the input lists, each once, in descending order of the specification's score
  (the sum over the lists of \<open>1 / (k + rank + 1)\<close> at each zero-based rank where the id
  occurs), and that sum is the score the code accumulated. When every input list is empty
  the output is empty, and no id occurs twice in the output.
\<close>

theorem rrf_fusion_spec:
  assumes "0 \<le> final_k"
  shows "reciprocal_rank_fusion ls final_k 60 = take (nat final_k) (final_list ls 60)
    \<and> set (map res_id (final_list ls 60)) = all_ids ls
    \<and> distinct (map res_id (final_list ls 60))
    \<and> ranked_desc (spec_rrf_score 60 ls) (map res_id (final_list ls 60))
    \<and> (\<forall>i. fused_score ls 60 i = spec_rrf_score 60 ls i)
    \<and> ((\<forall>l \<in> set ls. l = []) \<longrightarrow> reciprocal_rank_fusion ls final_k 60 = [])
    \<and> distinct (map res_id (reciprocal_rank_fusion ls final_k 60))"
proof -
  have 1: "reciprocal_rank_fusion ls final_k 60 = take (nat final_k) (final_list ls 60)"
    using assms by (simp add: reciprocal_rank_fusion_def py_slice_to_def)
  have 6: "(\<forall>l \<in> set ls. l = []) \<longrightarrow> reciprocal_rank_fusion ls final_k 60 = []"
    by (simp add: 1 final_list_all_empty)
  have 7: "distinct (map res_id (reciprocal_rank_fusion ls final_k 60))"
    unfolding reciprocal_rank_fusion_def
    by (rule distinct_map_py_slice_to) (rule distinct_ids_final_list)
  show ?thesis
    using 1 6 7 set_ids_final_list[of ls 60] distinct_ids_final_list[of ls 60]
      ranked_desc_final_list[of 60 ls] fused_score_spec[of ls 60]
    by blast
qed

text \<open>The theorem at two dense and sparse result lists, and at two empty lists.\<close>

theorem rrf_fusion_spec_witness:
  "(0::int) \<le> 5
   \<and> reciprocal_rank_fusion [[dense_A], [sparse_B, sparse_A]] 5 60
       = take (nat 5) (final_list [[dense_A], [sparse_B, sparse_A]] 60)
   \<and> distinct (map res_id (reciprocal_rank_fusion [[dense_A], [sparse_B, sparse_A]] 5 60))
   \<and> reciprocal_rank_fusion [[], []] 5 60 = []"
proof -
  have h: "(0::int) \<le> 5" by simp
  have e: "\<forall>l \<in> set [[], []::result list]. l = []" by simp
  show ?thesis
    using h e rrf_fusion_spec[OF h, of "[[dense_A], [sparse_B, sparse_A]]"]
      rrf_fusion_spec[OF h, of "[[], []]"]
    by blast
qed

text \<open>
  C2, as stated, fails: in a hybrid retrieval where chunk \<open>A\<close> is found by both
  searches, the returned record is the dense one with its cosine-derived score \<open>9/10\<close>,
  while the fused score of \<open>A\<close> is \<open>2/61\<close>.
\<close>

theorem rrf_score_counterexample:
  "reciprocal_rank_fusion [[dense_A], [sparse_A]] 5 60 = [dense_A]
   \<and> score dense_A = 9 / 10
   \<and> fused_score [[dense_A], [sparse_A]] 60 ''A'' = 2 / 61"
  by (simp add: reciprocal_rank_fusion_def py_slice_to_def final_list_def sorted_results_def
      ranked_results_def dense_A_def sparse_A_def fused_score_def score_in_def)

text \<open>
  C2, amended. Every record the fusion returns is one of the input records, unchanged:
  the first record with that id when the input lists are read in the order passed. The
  score it carries is therefore the one the underlying search gave it; the fused score
  only orders the output.
\<close>

theorem rrf_returns_first_record:
  "\<forall>d \<in> set (reciprocal_rank_fusion ls final_k 60).
     first_record ls (res_id d) = Some d \<and> d \<in> set (concat ls)"
proof
  fix d assume "d \<in> set (reciprocal_rank_fusion ls final_k 60)"
  then have "d \<in> set (final_list ls 60)"
    using set_py_slice_to[of final_k "final_list ls 60"] by (auto simp: reciprocal_rank_fusion_def)
  then obtain e where e: "e \<in> set (ranked_results ls 60)" and d: "d = snd (snd e)"
    by (auto simp: final_list_def set_sorted_results)
  have "first_record ls (res_id d) = Some d"
    using entry_ranked_results(2,3)[OF e] by (simp add: d)
  moreover from this have "d \<in> set (concat ls)"
    unfolding first_record_def find_Some_iff by (metis nth_mem)
  ultimately show "first_record ls (res_id d) = Some d \<and> d \<in> set (concat ls)" by simp
qed

theorem rrf_returns_first_record_witness:
  "reciprocal_rank_fusion [[dense_A], [sparse_A, sparse_B]] 5 60 = [dense_A, sparse_B]
   \<and> first_record [[dense_A], [sparse_A, sparse_B]] (res_id dense_A) = Some dense_A
   \<and> first_record [[dense_A], [sparse_A, sparse_B]] (res_id sparse_B) = Some sparse_B
   \<and> score dense_A = 9 / 10 \<and> score sparse_B = 5 / 2"
proof -
  have out: "reciprocal_rank_fusion [[dense_A], [sparse_A, sparse_B]] 5 60 = [dense_A, sparse_B]"
    by (simp add: reciprocal_rank_fusion_def py_slice_to_def final_list_def sorted_results_def
      ranked_results_def dense_A_def sparse_A_def sparse_B_def)
  have sc: "score dense_A = 9 / 10 \<and> score sparse_B = 5 / 2"
    by (simp add: dense_A_def sparse_B_def)
  show ?thesis
    using out sc rrf_returns_first_record[of "[[dense_A], [sparse_A, sparse_B]]" 5] by simp
qed




section \<open>The BM25 query: proofs\<close>
















subsection \<open>Claims about the sparse query\<close>




section \<open>The chunking pass: proofs\<close>

lemma strip_empty_all_space: "strip t = [] \<longleftrightarrow> (\<forall>c \<in> set t. is_space c)"
proof
  assume "strip t = []"
  then have all: "\<forall>x \<in> set (dropWhile is_space t). is_space x"
    by (simp add: strip_def dropWhile_eq_Nil_conv)
  have "dropWhile is_space t = []"
  proof (rule ccontr)
    assume ne: "dropWhile is_space t \<noteq> []"
    then have "\<not> is_space (hd (dropWhile is_space t))" by (rule hd_dropWhile)
    moreover have "hd (dropWhile is_space t) \<in> set (dropWhile is_space t)" using ne by simp
    ultimately show False using all by blast
  qed
  then show "\<forall>c \<in> set t. is_space c" by (simp add: dropWhile_eq_Nil_conv)
next
  assume "\<forall>c \<in> set t. is_space c"
  then have "dropWhile is_space t = []" by (simp add: dropWhile_eq_Nil_conv)
  then have "strip t = rev (dropWhile is_space (rev []))" by (simp only: strip_def)
  then show "strip t = []" by simp
qed

lemma blank_not_collection_error:
  assumes "strip t = []"
  shows "\<not> is_collection_error t"
proof
  assume "is_collection_error t"
  then have "CHR ''E'' \<in> set t \<or> CHR ''C'' \<in> set t"
    unfolding is_collection_error_def startswith_def conteudo_nao_encontrado_def
  proof (elim disjE)
    assume "take (length ''ERRO_'') t = ''ERRO_''"
    then have "CHR ''E'' \<in> set (take (length ''ERRO_'') t)" by simp
    then show ?thesis by (blast dest: in_set_takeD)
  next
    assume "t = ''Conte'' @ [CHR 0xFA] @ ''do n'' @ [CHR 0xE3] @ ''o encontrado''"
    then show ?thesis by simp
  qed
  moreover have "\<not> is_space (CHR ''E'')" "\<not> is_space (CHR ''C'')" by (simp_all add: is_space_def)
  ultimately show False using assms by (auto simp: strip_empty_all_space)
qed








lemma strip_examples:
  "strip ''ERRO_HTTP_404'' = ''ERRO_HTTP_404''" "strip '' abc '' = ''abc''"
  "strip ''abc def'' = ''abc def''" "strip ''abc'' = ''abc''" "strip ''def'' = ''def''"
  "strip ''  '' = []" "strip [] = []"
  by (simp_all add: strip_def is_space_def)








lemma example_flags:
  "reusable bloco_abc" "texto_hash bloco_abc = toy_hash ''abc''" "embedding bloco_abc = Some [1 / 2]"
  "pending_bloco bloco_pending"
  by (simp_all add: reusable_def bloco_abc_def bloco_pending_def pending_bloco_def pending_embedding_def
      toy_hash_def)





subsection \<open>Claims about the chunking pass\<close>









section \<open>Empty and blank documents: proofs\<close>

lemma process_doc_blank:
  assumes t: "texto_completo doc = Some t" and blank: "strip t = []"
  shows "process_doc env doc =
    (Some (doc\<lparr>texto_blocos := [],
              chunk_params := Some \<lparr>cp_hash = Some (sha256 env []),
                chunk_size = Some (env_chunk_size env), chunk_overlap = Some (env_chunk_overlap env),
                numero_blocos = None, status = Some ''TEXTO_VAZIO'',
                ultima_atualizacao_chunk = Some (now env), error_message = None\<rparr>\<rparr>), TextEmpty)"
  using t blank blank_not_collection_error[OF blank] by (simp add: process_doc_def Let_def)

lemma texto_vazio_is_error: "is_error_status (Some ''TEXTO_VAZIO'')"
  by (simp add: is_error_status_def error_statuses_def)


text \<open>
  C8, as stated, fails for a text that is exactly the empty string: the query of the
  pass leaves such a document out, so nothing is recorded on it. A document that was
  chunked before its text became empty keeps its old chunks and its status
  \<open>PROCESSADO_OK\<close>, and the embedding pass still selects it.
\<close>

theorem empty_text_document_counterexample:
  "texto_completo doc_emptied = Some []
   \<and> collection (split_text_into_blocks toy_env [doc_emptied]) = [doc_emptied]
   \<and> written (split_text_into_blocks toy_env [doc_emptied]) = []
   \<and> texto_blocos doc_emptied = [bloco_pending]
   \<and> doc_status doc_emptied = Some ''PROCESSADO_OK''
   \<and> embedding_query doc_emptied"
proof -
  have q: "\<not> chunk_query doc_emptied" by (simp add: chunk_query_def doc_emptied_def)
  have st: "doc_status doc_emptied = Some ''PROCESSADO_OK''"
    by (simp add: doc_status_def doc_emptied_def ok_params_def)
  have tb: "texto_blocos doc_emptied = [bloco_pending]" by (simp add: doc_emptied_def)
  have eq: "embedding_query doc_emptied"
    by (simp add: embedding_query_def st tb example_flags is_error_status_def error_statuses_def)
  show ?thesis
    using q st tb eq
    by (simp add: split_text_into_blocks_def doc_after_def doc_written_def Let_def)
       (simp add: doc_emptied_def)
qed


text \<open>
  C8, amended. For a document whose text is not empty but blank, the pass takes the
  empty-text branch: it writes the document with zero chunks and the status
  \<open>TEXTO_VAZIO\<close>; the written document is not selected by the query of the embedding
  pass, counts no pending embedding, and an embedding pass over it does nothing. With no
  chunks it has nothing that a retrieval index could hold. A document whose text is
  exactly the empty string is not visited: the pass leaves it as it is.
\<close>

theorem blank_document_text_empty:
  "(texto_completo doc = Some t \<and> t \<noteq> [] \<and> strip t = [] \<longrightarrow>
      snd (process_doc env doc) = TextEmpty
      \<and> doc_written env doc
      \<and> texto_blocos (doc_after env doc) = []
      \<and> doc_status (doc_after env doc) = Some ''TEXTO_VAZIO''
      \<and> \<not> embedding_query (doc_after env doc)
      \<and> get_pending_embeddings_count_agg [doc_after env doc] = 0
      \<and> process_document_embeddings eenv [doc_after env doc] = initial_embed_state)
   \<and> (texto_completo doc = Some [] \<longrightarrow> doc_after env doc = doc \<and> \<not> doc_written env doc)"
proof (intro conjI impI)
  assume a: "texto_completo doc = Some t \<and> t \<noteq> [] \<and> strip t = []"
  then have q: "chunk_query doc" by (simp add: chunk_query_def)
  note p = process_doc_blank[of doc t env] 
  have after: "doc_after env doc = doc\<lparr>texto_blocos := [],
              chunk_params := Some \<lparr>cp_hash = Some (sha256 env []),
                chunk_size = Some (env_chunk_size env), chunk_overlap = Some (env_chunk_overlap env),
                numero_blocos = None, status = Some ''TEXTO_VAZIO'',
                ultima_atualizacao_chunk = Some (now env), error_message = None\<rparr>\<rparr>"
    using a q p by (simp add: doc_after_def)
  show "snd (process_doc env doc) = TextEmpty" using a p by simp
  show "doc_written env doc" using a q p by (simp add: doc_written_def)
  show "texto_blocos (doc_after env doc) = []" by (simp add: after)
  show st: "doc_status (doc_after env doc) = Some ''TEXTO_VAZIO''" by (simp add: after doc_status_def)
  show nq: "\<not> embedding_query (doc_after env doc)"
    by (simp add: embedding_query_def st texto_vazio_is_error)
  show "get_pending_embeddings_count_agg [doc_after env doc] = 0"
    by (simp add: get_pending_embeddings_count_agg_def st texto_vazio_is_error)
  show "process_document_embeddings eenv [doc_after env doc] = initial_embed_state"
    using nq by (simp add: process_document_embeddings_def initial_embed_state_def)
next
  assume "texto_completo doc = Some []"
  then have "\<not> chunk_query doc" by (simp add: chunk_query_def)
  then show "doc_after env doc = doc" "\<not> doc_written env doc"
    by (simp_all add: doc_after_def doc_written_def)
qed


theorem blank_document_text_empty_witness:
  "texto_completo doc_blank = Some ''  '' \<and> strip ''  '' = []
   \<and> snd (process_doc toy_env doc_blank) = TextEmpty
   \<and> texto_blocos (doc_after toy_env doc_blank) = []
   \<and> doc_status (doc_after toy_env doc_blank) = Some ''TEXTO_VAZIO''
   \<and> \<not> embedding_query (doc_after toy_env doc_blank)
   \<and> doc_after toy_env doc_emptied = doc_emptied"
proof -
  have t: "texto_completo doc_blank = Some ''  ''" by (simp add: doc_blank_def)
  have e: "texto_completo doc_emptied = Some []" by (simp add: doc_emptied_def)
  have b: "''  '' \<noteq> [] \<and> strip ''  '' = []" by (simp add: strip_examples)
  show ?thesis
    using blank_document_text_empty[of doc_blank "''  ''" toy_env "env_of always_short"]
      blank_document_text_empty[of doc_emptied "[]" toy_env "env_of always_short"] t e b
    by simp
qed
section \<open>The embedding pass: proofs\<close>
















section \<open>The embedding sync loop: proofs\<close>

























section \<open>Chunks and the token limit: proofs\<close>














end
